theory Spec2Isabelle
  imports Main
begin

section \<open>The rule declaration-property-value-no-unknown\<close>

text \<open>
  A shallow embedding of \<^verbatim>\<open>lib/rules/declaration-property-value-no-unknown/index.js\<close>.
  The rule walks the declarations of a stylesheet; for each one it runs a chain of guards,
  parses the value with css-tree, matches it against the (forked) grammar and reports a
  mismatch.  The file only contains the rule itself: the utilities it requires
  (\<^verbatim>\<open>validateOptions\<close>, \<^verbatim>\<open>isStandardSyntax*\<close>, \<^verbatim>\<open>isCustomProperty\<close>,
  \<^verbatim>\<open>matchesStringOrRegExp\<close>, \<^verbatim>\<open>declarationValueIndex\<close>, \<^verbatim>\<open>ruleMessages\<close>) and the
  css-tree functions \<^verbatim>\<open>parse\<close>, \<^verbatim>\<open>fork\<close> and \<^verbatim>\<open>matchProperty\<close> are parameters of the
  model, collected in the record \<open>env\<close>.  Strings are lists of characters, one
  character standing for one code unit of the JavaScript string; numbers are integers.
  The options are JavaScript values as the configuration gives them, of any shape.
\<close>

subsection \<open>JavaScript values\<close>

text \<open>
  The values an option can hold: \<^verbatim>\<open>undefined\<close>, \<^verbatim>\<open>null\<close>, a boolean, a number, a
  string, a regular expression (kept abstract), an array, or a plain object, given by its
  entries in enumeration order.  The values of the \<^verbatim>\<open>ignoreProperties\<close> object are such
  values, and \<^verbatim>\<open>undefined\<close> is also what the destructuring
  \<^verbatim>\<open>const [, valuePattern] = ... || []\<close> yields when no entry is found.
\<close>

datatype 'r jsvalue =
    Undefined | Null | Boolean bool | Number int | Str string | RegExp 'r
  | Arr "'r jsvalue list" | Obj "(string \<times> 'r jsvalue) list"

type_synonym 'r pattern = "'r jsvalue"

text \<open>
  JavaScript's ToBoolean: \<^verbatim>\<open>undefined\<close>, \<^verbatim>\<open>null\<close>, \<^verbatim>\<open>false\<close>, \<^verbatim>\<open>0\<close> and \<^verbatim>\<open>''\<close> are
  falsy, every regular expression, array and object is truthy.
\<close>

fun truthy :: "'r pattern \<Rightarrow> bool" where
  "truthy Undefined = False"
| "truthy Null = False"
| "truthy (Boolean b) = b"
| "truthy (Number n) = (n \<noteq> 0)"
| "truthy (Str s) = (s \<noteq> [])"
| "truthy (RegExp r) = True"
| "truthy (Arr ps) = True"
| "truthy (Obj es) = True"

text \<open>
  \<^verbatim>\<open>a && b\<close> and \<^verbatim>\<open>a || b\<close> on values, and the read of a property \<^verbatim>\<open>o.k\<close>.  The rule
  reads a property only behind \<^verbatim>\<open>o && ...\<close>, so never from \<^verbatim>\<open>null\<close> or \<^verbatim>\<open>undefined\<close>;
  a primitive value, an array or a regular expression has none of the three properties
  the rule reads.
\<close>

definition logicalAnd :: "'r jsvalue \<Rightarrow> 'r jsvalue \<Rightarrow> 'r jsvalue" where
  "logicalAnd a b = (if truthy a then b else a)"

definition logicalOr :: "'r jsvalue \<Rightarrow> 'r jsvalue \<Rightarrow> 'r jsvalue" where
  "logicalOr a b = (if truthy a then a else b)"

fun getProperty :: "'r jsvalue \<Rightarrow> string \<Rightarrow> 'r jsvalue" where
  "getProperty (Obj es) k = (case map_of es k of Some v \<Rightarrow> v | None \<Rightarrow> Undefined)"
| "getProperty _ k = Undefined"

text \<open>
  \<^verbatim>\<open>Object.entries\<close>: the entries of an object; for an array and for a string the
  elements under their indices in decimal; nothing for the other values.  (It throws on
  \<^verbatim>\<open>null\<close> and \<^verbatim>\<open>undefined\<close>, which the rule replaces by \<^verbatim>\<open>{}\<close> before the call.)
\<close>

fun decimal :: "nat \<Rightarrow> string" where
  "decimal n =
     (if n < 10 then [char_of (48 + n)] else decimal (n div 10) @ [char_of (48 + n mod 10)])"

declare decimal.simps [simp del]

fun Object_entries :: "'r jsvalue \<Rightarrow> (string \<times> 'r jsvalue) list" where
  "Object_entries (Obj es) = es"
| "Object_entries (Arr xs) = zip (map decimal [0..<length xs]) xs"
| "Object_entries (Str s) = zip (map decimal [0..<length s]) (map (\<lambda>c. Str [c]) s)"
| "Object_entries _ = []"

text \<open>
  \<^verbatim>\<open>String.prototype.slice(start, end)\<close>: a negative argument counts from the end of the
  string, both are clamped to the string, and an empty range gives the empty string.
\<close>

definition slice :: "string \<Rightarrow> int \<Rightarrow> int \<Rightarrow> string" where
  "slice s start end =
     (let len = int (length s);
          from = (if start < 0 then max (len + start) 0 else min start len);
          to = (if end < 0 then max (len + end) 0 else min end len)
      in take (nat (max (to - from) 0)) (drop (nat from) s))"

text \<open>
  The regular expression \<^verbatim>\<open>/^-moz-initial$/i\<close>.  With the flag \<^verbatim>\<open>i\<close> (and without
  \<^verbatim>\<open>u\<close>) two characters match when their canonical forms are equal, the canonical form
  being the upper-case one, except that a character outside ASCII is never mapped into
  ASCII; so for a pattern of ASCII characters only the ASCII letters are folded.
  Without the flag \<^verbatim>\<open>m\<close>, \<^verbatim>\<open>^\<close> and \<^verbatim>\<open>$\<close> match only at the two ends of the input.
\<close>

definition Canonicalize :: "char \<Rightarrow> char" where
  "Canonicalize c =
     (let n = (of_char c :: nat) in if 97 \<le> n \<and> n \<le> 122 then char_of (n - 32) else c)"

fun matchAnchored :: "string \<Rightarrow> string \<Rightarrow> bool" where
  "matchAnchored [] [] = True"
| "matchAnchored (p # ps) (c # cs) = (Canonicalize p = Canonicalize c \<and> matchAnchored ps cs)"
| "matchAnchored _ _ = False"

definition mozInitial_test :: "string \<Rightarrow> bool" where
  "mozInitial_test value = matchAnchored ''-moz-initial'' value"

subsection \<open>The css-tree value tree\<close>

text \<open>
  A css-tree node has a type, for some types a name, and child nodes.
  \<^verbatim>\<open>find(ast, fn)\<close> walks the tree in document order, parents before children, and returns
  the first node that satisfies \<^verbatim>\<open>fn\<close>, or \<^verbatim>\<open>null\<close>.
\<close>

datatype cssnode = CssNode (node_type: string) (node_name: "string option") (children: "cssnode list")

fun csstree_find :: "cssnode \<Rightarrow> (cssnode \<Rightarrow> bool) \<Rightarrow> cssnode option"
  and csstree_find_list :: "cssnode list \<Rightarrow> (cssnode \<Rightarrow> bool) \<Rightarrow> cssnode option" where
  "csstree_find (CssNode t n cs) fn =
     (if fn (CssNode t n cs) then Some (CssNode t n cs) else csstree_find_list cs fn)"
| "csstree_find_list [] fn = None"
| "csstree_find_list (c # cs) fn =
     (case csstree_find c fn of Some found \<Rightarrow> Some found | None \<Rightarrow> csstree_find_list cs fn)"

definition unsupportedMathFunction :: "cssnode \<Rightarrow> bool" where
  "unsupportedMathFunction node =
     (node_type node = ''Function'' \<and> node_name node \<in> set [Some ''clamp'', Some ''min'', Some ''max''])"

definition containsUnsupportedMathFunction :: "cssnode \<Rightarrow> bool" where
  "containsUnsupportedMathFunction cssTreeNode =
     (csstree_find cssTreeNode unsupportedMathFunction \<noteq> None)"

text \<open>All nodes of a tree, at any depth, the root included: what "anywhere in the tree" means.\<close>

fun nodes :: "cssnode \<Rightarrow> cssnode list" where
  "nodes (CssNode t n cs) = CssNode t n cs # concat (map nodes cs)"

subsection \<open>Declarations, match results, diagnostics\<close>

text \<open>
  A PostCSS declaration: the rule reads \<^verbatim>\<open>prop\<close> and \<^verbatim>\<open>value\<close>; everything else of the
  node (raws, parent, source position) is only seen by the collaborators and is kept in
  \<open>decl_node\<close>.
\<close>

record 'n decl =
  decl_prop :: string
  decl_value :: string
  decl_node :: 'n

text \<open>The error object of a css-tree match result, with the four fields the rule reads.\<close>

record match_error =
  name :: string
  rawMessage :: string
  mismatchOffset :: int
  mismatchLength :: int

text \<open>
  What the rule hands to the outside: \<open>Warning\<close> is a call
  \<^verbatim>\<open>result.warn(text, {node, stylelintType})\<close>, \<open>Reported\<close> is a call
  \<^verbatim>\<open>report({message, node, index, endIndex, result, ruleName})\<close>.
\<close>

datatype 'n diagnostic =
    Warning (warning_text: string) (warning_node: "'n decl option") (stylelintType: string)
  | Reported (message: string) (reported_node: "'n decl") (index: int) (endIndex: int)
      (reported_ruleName: string)

text \<open>The calls the rule makes to its collaborators, recorded in program order.\<close>

datatype call =
    ValidateOptions | Fork
  | IsStandardSyntaxDeclaration | IsStandardSyntaxProperty | IsStandardSyntaxValue
  | IsCustomProperty | IsPropIgnored | Parse | ContainsUnsupportedMathFunction
  | MatchProperty | DeclarationValueIndex

record 'n state =
  messages :: "'n diagnostic list"
  calls :: "call list"

definition called :: "call \<Rightarrow> 'n state \<Rightarrow> 'n state" where
  "called c st = st\<lparr>calls := calls st @ [c]\<rparr>"

text \<open>
  Modelled from the spec: \<^verbatim>\<open>utils/report\<close> is not among the sources; the Diagnostic
  Reporter "records the diagnostic", as \<^verbatim>\<open>result.warn\<close> of PostCSS does.
\<close>

definition emit :: "'n diagnostic \<Rightarrow> 'n state \<Rightarrow> 'n state" where
  "emit d st = st\<lparr>messages := messages st @ [d]\<rparr>"

subsection \<open>Options and collaborators\<close>

type_synonym lexer = "string \<Rightarrow> cssnode \<Rightarrow> match_error option"

text \<open>
  One option description as the rule hands it to the option check (lines 34 to 43):
  the value given, for an object of options the validators of each known option, and
  whether the value may be left out.
\<close>

record 'r optionDescription =
  actual :: "'r jsvalue"
  possible :: "(string \<times> ('r jsvalue \<Rightarrow> bool) list) list option"
  optional :: bool

text \<open>
  Modelled from the spec: the validators \<^verbatim>\<open>isString\<close> and \<^verbatim>\<open>isRegExp\<close>
  (\<^verbatim>\<open>utils/validateTypes\<close>), \<^verbatim>\<open>isPlainObject\<close> (package \<^verbatim>\<open>is-plain-object\<close>) and
  \<^verbatim>\<open>validateObjectWithArrayProps\<close> are not among the sources.  An ignore rule maps a name
  pattern to a value pattern, a pattern being a string or a regular expression; the last
  validator accepts a plain object each of whose values is, or is an array of, values
  that one of the given validators accepts.
\<close>

definition isString :: "'r jsvalue \<Rightarrow> bool" where
  "isString v = (case v of Str s \<Rightarrow> True | _ \<Rightarrow> False)"

definition isRegExp :: "'r jsvalue \<Rightarrow> bool" where
  "isRegExp v = (case v of RegExp r \<Rightarrow> True | _ \<Rightarrow> False)"

definition isPlainObject :: "'r jsvalue \<Rightarrow> bool" where
  "isPlainObject v = (case v of Obj es \<Rightarrow> True | _ \<Rightarrow> False)"

definition flat :: "'r jsvalue list \<Rightarrow> 'r jsvalue list" where
  "flat vs = concat (map (\<lambda>v. case v of Arr xs \<Rightarrow> xs | _ \<Rightarrow> [v]) vs)"

definition validateObjectWithArrayProps :: "('r jsvalue \<Rightarrow> bool) list \<Rightarrow> 'r jsvalue \<Rightarrow> bool" where
  "validateObjectWithArrayProps validators v =
     (case v of
        Obj es \<Rightarrow> list_all (\<lambda>item. list_ex (\<lambda>validator. validator item) validators) (flat (map snd es))
      | _ \<Rightarrow> False)"

text \<open>The \<^verbatim>\<open>possible\<close> object of lines 37 to 41, and the two descriptions of lines 34 to 43.\<close>

definition possibleOptions :: "(string \<times> ('r jsvalue \<Rightarrow> bool) list) list" where
  "possibleOptions =
     [(''ignoreProperties'', [validateObjectWithArrayProps [isString, isRegExp]]),
      (''propertiesSyntax'', [isPlainObject]),
      (''typesSyntax'', [isPlainObject])]"

definition optionDescriptions :: "'r jsvalue \<Rightarrow> 'r jsvalue \<Rightarrow> 'r optionDescription list" where
  "optionDescriptions primary secondaryOptions =
     [\<lparr>actual = primary, possible = None, optional = False\<rparr>,
      \<lparr>actual = secondaryOptions, possible = Some possibleOptions, optional = True\<rparr>]"

text \<open>
  The collaborators.  \<open>validateOptions\<close> is given the messages of the result, the rule
  name and the option descriptions; it answers whether the options are valid and may add
  its own warnings to the result.  Apart from \<open>parse\<close>, whose exception the rule catches,
  the collaborators are taken to return.  \<open>parse\<close> gives \<open>None\<close> when css-tree throws;
  \<open>fork\<close> gives the lexer, which is its \<^verbatim>\<open>matchProperty\<close>, whose \<^verbatim>\<open>error\<close> is
  \<open>None\<close> for \<^verbatim>\<open>null\<close>; \<open>ruleMessages\<close> takes the rule name and the text built by
  \<^verbatim>\<open>rejected\<close> and gives the final message.
\<close>

record ('n, 'r) env =
  validateOptions ::
    "'n diagnostic list \<Rightarrow> string \<Rightarrow> 'r optionDescription list \<Rightarrow> bool \<times> 'n diagnostic list"
  isStandardSyntaxDeclaration :: "'n decl \<Rightarrow> bool"
  isStandardSyntaxProperty :: "string \<Rightarrow> bool"
  isStandardSyntaxValue :: "string \<Rightarrow> bool"
  isCustomProperty :: "string \<Rightarrow> bool"
  matchesStringOrRegExp :: "string \<Rightarrow> 'r pattern \<Rightarrow> bool"
  parse :: "string \<Rightarrow> cssnode option"
  fork :: "'r jsvalue \<Rightarrow> 'r jsvalue \<Rightarrow> lexer"
  declarationValueIndex :: "'n decl \<Rightarrow> int"
  ruleMessages :: "string \<Rightarrow> string \<Rightarrow> string"

subsection \<open>The rule\<close>

definition ruleName :: string where
  "ruleName = ''declaration-property-value-no-unknown''"

definition rejected :: "string \<Rightarrow> string \<Rightarrow> string" where
  "rejected property value =
     ''Unexpected unknown value \"'' @ value @ ''\" for property \"'' @ property @ ''\"''"

text \<open>
  \<^verbatim>\<open>isPropIgnored\<close>: the value pattern of the first entry whose key matches the name,
  \<^verbatim>\<open>undefined\<close> when there is none; the result is \<^verbatim>\<open>valuePattern && matches(...)\<close>, read
  by the caller as a condition.
\<close>

definition isPropIgnored ::
  "('n, 'r) env \<Rightarrow> (string \<times> 'r pattern) list \<Rightarrow> string \<Rightarrow> string \<Rightarrow> bool" where
  "isPropIgnored E ignoreProps nm value =
     (let valuePattern =
            (case List.find (\<lambda>(namePattern, _). matchesStringOrRegExp E nm (Str namePattern)) ignoreProps of
               Some (_, vp) \<Rightarrow> vp
             | None \<Rightarrow> Undefined)
      in truthy valuePattern \<and> matchesStringOrRegExp E value valuePattern)"

text \<open>The function given to \<^verbatim>\<open>root.walkDecls\<close>.\<close>

definition declCallback ::
  "('n, 'r) env \<Rightarrow> (string \<times> 'r pattern) list \<Rightarrow> lexer \<Rightarrow> 'n decl \<Rightarrow> 'n state \<Rightarrow> 'n state" where
  "declCallback E ignoreProps forkedLexer d st =
     (if mozInitial_test (decl_value d) then st else
      let st = called IsStandardSyntaxDeclaration st in
      if \<not> isStandardSyntaxDeclaration E d then st else
      let st = called IsStandardSyntaxProperty st in
      if \<not> isStandardSyntaxProperty E (decl_prop d) then st else
      let st = called IsStandardSyntaxValue st in
      if \<not> isStandardSyntaxValue E (decl_value d) then st else
      let st = called IsCustomProperty st in
      if isCustomProperty E (decl_prop d) then st else
      let st = called IsPropIgnored st in
      if isPropIgnored E ignoreProps (decl_prop d) (decl_value d) then st else
      let st = called Parse st in
      case parse E (decl_value d) of
        None \<Rightarrow>
          emit (Warning (''Cannot parse property value \"'' @ decl_value d @ ''\"'') (Some d) ''parseError'') st
      | Some cssTreeValueNode \<Rightarrow>
          let st = called ContainsUnsupportedMathFunction st in
          if containsUnsupportedMathFunction cssTreeValueNode then st else
          let st = called MatchProperty st in
          (case forkedLexer (decl_prop d) cssTreeValueNode of
            None \<Rightarrow> st
          | Some error \<Rightarrow>
              if name error \<noteq> ''SyntaxMatchError'' then st else
              if rawMessage error \<noteq> ''Mismatch'' then st else
              let mismatchValue =
                    slice (decl_value d) (mismatchOffset error) (mismatchOffset error + mismatchLength error);
                  st = called DeclarationValueIndex st;
                  index = declarationValueIndex E d + mismatchOffset error;
                  endIndex = index + mismatchLength error
              in emit (Reported (ruleMessages E ruleName (rejected (decl_prop d) mismatchValue))
                         d index endIndex ruleName) st))"

text \<open>\<^verbatim>\<open>root.walkDecls(callback)\<close>: the callback on every declaration, in document order.\<close>

fun walkDecls :: "'n decl list \<Rightarrow> ('n decl \<Rightarrow> 'n state \<Rightarrow> 'n state) \<Rightarrow> 'n state \<Rightarrow> 'n state" where
  "walkDecls [] callback st = st"
| "walkDecls (d # ds) callback st = walkDecls ds callback (callback d st)"

definition rule ::
  "('n, 'r) env \<Rightarrow> 'r jsvalue \<Rightarrow> 'r jsvalue \<Rightarrow> 'n decl list \<Rightarrow> 'n state \<Rightarrow> 'n state" where
  "rule E primary secondaryOptions root result =
     (let (validOptions, msgs) =
            validateOptions E (messages result) ruleName (optionDescriptions primary secondaryOptions);
          result = called ValidateOptions (result\<lparr>messages := msgs\<rparr>)
      in if \<not> validOptions then result else
         let ignoreProps =
               Object_entries
                 (logicalOr (logicalAnd secondaryOptions (getProperty secondaryOptions ''ignoreProperties''))
                    (Obj []));
             propsSyntax =
               logicalOr (logicalAnd secondaryOptions (getProperty secondaryOptions ''propertiesSyntax''))
                 (Obj []);
             tySyntax =
               logicalOr (logicalAnd secondaryOptions (getProperty secondaryOptions ''typesSyntax''))
                 (Obj []);
             forkedLexer = fork E propsSyntax tySyntax;
             result = called Fork result
         in walkDecls root (declCallback E ignoreProps forkedLexer) result)"

text \<open>What one declaration adds, starting from nothing.\<close>

definition initial :: "'n state" where
  "initial = \<lparr>messages = [], calls = []\<rparr>"

definition emitted ::
  "('n, 'r) env \<Rightarrow> (string \<times> 'r pattern) list \<Rightarrow> lexer \<Rightarrow> 'n decl \<Rightarrow> 'n diagnostic list" where
  "emitted E ignoreProps forkedLexer d = messages (declCallback E ignoreProps forkedLexer d initial)"

definition invoked ::
  "('n, 'r) env \<Rightarrow> (string \<times> 'r pattern) list \<Rightarrow> lexer \<Rightarrow> 'n decl \<Rightarrow> call list" where
  "invoked E ignoreProps forkedLexer d = calls (declCallback E ignoreProps forkedLexer d initial)"

subsection \<open>The option check\<close>

text \<open>
  Modelled from the spec: \<^verbatim>\<open>utils/validateOptions\<close> is not among the sources.  The
  specification has malformed options surfaced as a configuration error before any
  declaration is processed, and the three secondary options optional.  The check goes
  through the descriptions it is given and complains about each value that its
  description does not allow; every complaint becomes a warning of type
  \<^verbatim>\<open>invalidOption\<close> in the result, and the answer is whether there was none.
  For one description: \<^verbatim>\<open>false\<close> is a complaint; \<^verbatim>\<open>null\<close> and \<^verbatim>\<open>[null]\<close> are let
  through; without possible values only \<^verbatim>\<open>true\<close> and \<^verbatim>\<open>undefined\<close> are allowed; with
  them, \<^verbatim>\<open>undefined\<close> is allowed when the value is optional, and otherwise the value must
  be a plain object, each of whose entries has a known name and a value that is, or is an
  array of, values that a validator of that name accepts.  The entries \<^verbatim>\<open>severity\<close>,
  \<^verbatim>\<open>message\<close>, \<^verbatim>\<open>reportDisables\<close> and \<^verbatim>\<open>disableFix\<close> belong to every rule and are not
  looked at.  The texts leave out the rendering of the offending value.
\<close>

definition ignoredOptions :: "string list" where
  "ignoredOptions = [''severity'', ''message'', ''reportDisables'', ''disableFix'']"

definition validate :: "string \<Rightarrow> 'r optionDescription \<Rightarrow> string list" where
  "validate rn od =
     (if actual od = Boolean False \<and> take 6 rn \<noteq> ''report'' then
        [''Invalid option value \"false\" for rule \"'' @ rn @ ''\"'']
      else if actual od = Null \<or> actual od = Arr [Null] then []
      else case possible od of
        None \<Rightarrow>
          if actual od = Boolean True then []
          else if actual od = Undefined then []
          else if optional od then [''Incorrect configuration for rule \"'' @ rn @ ''\"'']
          else [''Unexpected option value for rule \"'' @ rn @ ''\"'']
      | Some poss \<Rightarrow>
          if actual od = Undefined then
            (if optional od then [] else [''Expected option value for rule \"'' @ rn @ ''\"''])
          else (case actual od of
            Obj es \<Rightarrow>
              concat (map (\<lambda>(optionName, optionValue).
                if optionName \<in> set ignoredOptions then []
                else (case map_of poss optionName of
                  None \<Rightarrow> [''Invalid option name \"'' @ optionName @ ''\" for rule \"'' @ rn @ ''\"'']
                | Some validators \<Rightarrow>
                    concat (map (\<lambda>a.
                      if list_ex (\<lambda>validator. validator a) validators then []
                      else [''Invalid value for option \"'' @ optionName @ ''\" of rule \"'' @ rn @ ''\"''])
                      (flat [optionValue])))) es)
          | _ \<Rightarrow> [''Invalid option value for rule \"'' @ rn @ ''\": should be an object'']))"

definition invalidOption :: "string \<Rightarrow> 'n diagnostic" where
  "invalidOption txt = Warning txt None ''invalidOption''"

definition validateOptionsModel ::
  "'n diagnostic list \<Rightarrow> string \<Rightarrow> 'r optionDescription list \<Rightarrow> bool \<times> 'n diagnostic list" where
  "validateOptionsModel msgs rn descriptions =
     (let complaints = concat (map (validate rn) descriptions)
      in (complaints = [], msgs @ map invalidOption complaints))"

text \<open>The complaints of the check about the options of this rule.\<close>

definition optionComplaints :: "'r jsvalue \<Rightarrow> 'r jsvalue \<Rightarrow> string list" where
  "optionComplaints primary secondaryOptions =
     concat (map (validate ruleName) (optionDescriptions primary secondaryOptions))"

subsection \<open>Notions the properties are stated with\<close>

text \<open>
  "The literal token in any letter case": equality of two strings up to the case of the
  ASCII letters, defined by folding to lower case, independently of the matcher above.
\<close>

definition asciiLower :: "char \<Rightarrow> char" where
  "asciiLower c =
     (let n = (of_char c :: nat) in if 65 \<le> n \<and> n \<le> 90 then char_of (n + 32) else c)"

definition equalsIgnoringCase :: "string \<Rightarrow> string \<Rightarrow> bool" where
  "equalsIgnoringCase a b = (map asciiLower a = map asciiLower b)"

text \<open>
  A declaration is eligible when none of the six guards in front of the parser returns:
  the value is not \<^verbatim>\<open>-moz-initial\<close>, declaration, property and value are standard
  syntax, the property is not a custom property, and no ignore rule applies.
\<close>

definition isEligible :: "('n, 'r) env \<Rightarrow> (string \<times> 'r pattern) list \<Rightarrow> 'n decl \<Rightarrow> bool" where
  "isEligible E ig d =
     (\<not> mozInitial_test (decl_value d) \<and>
      isStandardSyntaxDeclaration E d \<and>
      isStandardSyntaxProperty E (decl_prop d) \<and>
      isStandardSyntaxValue E (decl_value d) \<and>
      \<not> isCustomProperty E (decl_prop d) \<and>
      \<not> isPropIgnored E ig (decl_prop d) (decl_value d))"

text \<open>
  The range invariant in the words of the specification: the end index strictly greater
  than the start index, both non-negative.  A warning has no indices.
\<close>

definition strictRange :: "'n diagnostic \<Rightarrow> bool" where
  "strictRange g =
     (case g of
        Warning t n s \<Rightarrow> True
      | Reported m n i e r \<Rightarrow> 0 \<le> i \<and> 0 \<le> e \<and> i < e)"


subsection \<open>A concrete environment\<close>

text \<open>
  Small stand-ins for the collaborators, to run the rule on concrete declarations: a
  parser that fails on \<^verbatim>\<open>(\<close>, knows one value with nested functions and reads anything
  else as one identifier; a lexer that answers by property name; a value index that counts
  the property name, the colon and one space; a pattern matcher for exact strings and the
  pattern \<^verbatim>\<open>/./\<close>; the option check described above.
\<close>

definition exampleParse :: "string \<Rightarrow> cssnode option" where
  "exampleParse v =
     (if v = ''('' then None
      else if v = ''calc(1px + max(1px, 2px)) redd'' then
        Some (CssNode ''Value'' None
          [CssNode ''Function'' (Some ''calc'')
             [CssNode ''Dimension'' None [], CssNode ''Operator'' None [],
              CssNode ''Function'' (Some ''max'')
                [CssNode ''Dimension'' None [], CssNode ''Operator'' None [], CssNode ''Dimension'' None []]],
           CssNode ''Identifier'' (Some ''redd'') []])
      else Some (CssNode ''Value'' None [CssNode ''Identifier'' (Some v) []]))"

definition exampleLexer :: lexer where
  "exampleLexer p node =
     (if p = ''color'' then
        Some \<lparr>name = ''SyntaxMatchError'', rawMessage = ''Mismatch'', mismatchOffset = 0, mismatchLength = 4\<rparr>
      else if p = ''font'' then
        Some \<lparr>name = ''SyntaxMatchError'', rawMessage = ''Mismatch'', mismatchOffset = 0, mismatchLength = 0\<rparr>
      else if p = ''width'' then
        Some \<lparr>name = ''SyntaxMatchError'', rawMessage = ''Mismatch'', mismatchOffset = 26, mismatchLength = 4\<rparr>
      else if p = ''height'' then
        Some \<lparr>name = ''Error'', rawMessage = ''Mismatch'', mismatchOffset = 0, mismatchLength = 0\<rparr>
      else None)"

definition exampleEnv :: "(unit, unit) env" where
  "exampleEnv =
     \<lparr>validateOptions = validateOptionsModel,
      isStandardSyntaxDeclaration = (\<lambda>d. True),
      isStandardSyntaxProperty = (\<lambda>p. True),
      isStandardSyntaxValue = (\<lambda>v. True),
      isCustomProperty = (\<lambda>p. take 2 p = ''--''),
      matchesStringOrRegExp = (\<lambda>s p. case p of Str t \<Rightarrow> t = s \<or> (t = ''/./'' \<and> s \<noteq> []) | _ \<Rightarrow> False),
      parse = exampleParse,
      fork = (\<lambda>ps ts. exampleLexer),
      declarationValueIndex = (\<lambda>d. int (length (decl_prop d)) + 2),
      ruleMessages = (\<lambda>rn txt. txt @ '' ('' @ rn @ '')'')\<rparr>"

definition exampleDecl :: "string \<Rightarrow> string \<Rightarrow> unit decl" where
  "exampleDecl p v = \<lparr>decl_prop = p, decl_value = v, decl_node = ()\<rparr>"

section \<open>Properties\<close>

subsection \<open>What a declaration adds to the state\<close>

text \<open>
  The callback only appends: on any state it adds the diagnostics and the calls it adds
  to the empty one.  So a walk adds, declaration by declaration, what each one emits.
\<close>

lemma declCallback_frame:
  "declCallback E ig lx d st =
     st\<lparr>messages := messages st @ emitted E ig lx d, calls := calls st @ invoked E ig lx d\<rparr>"
  by (simp add: declCallback_def emitted_def invoked_def initial_def called_def emit_def Let_def
      split: option.splits)

lemma walkDecls_frame:
  "walkDecls ds (declCallback E ig lx) st =
     st\<lparr>messages := messages st @ concat (map (emitted E ig lx) ds),
        calls := calls st @ concat (map (invoked E ig lx) ds)\<rparr>"
proof (induction ds arbitrary: st)
  case Nil
  show ?case by simp
next
  case (Cons d ds)
  show ?case
    by (simp add: Cons.IH declCallback_frame [of E ig lx d st])
qed

text \<open>The diagnostics of one declaration, by the exit the callback takes.\<close>

lemma emitted_eq:
  "emitted E ig lx d =
     (if \<not> isEligible E ig d then []
      else case parse E (decl_value d) of
        None \<Rightarrow> [Warning (''Cannot parse property value \"'' @ decl_value d @ ''\"'') (Some d) ''parseError'']
      | Some tree \<Rightarrow>
          if containsUnsupportedMathFunction tree then []
          else (case lx (decl_prop d) tree of
            None \<Rightarrow> []
          | Some err \<Rightarrow>
              if name err = ''SyntaxMatchError'' \<and> rawMessage err = ''Mismatch'' then
                [Reported (ruleMessages E ruleName (rejected (decl_prop d)
                    (slice (decl_value d) (mismatchOffset err) (mismatchOffset err + mismatchLength err))))
                  d (declarationValueIndex E d + mismatchOffset err)
                  (declarationValueIndex E d + mismatchOffset err + mismatchLength err) ruleName]
              else []))"
  by (simp add: emitted_def declCallback_def initial_def called_def emit_def Let_def isEligible_def
      split: option.splits)

lemma length_emitted: "length (emitted E ig lx d) \<le> 1"
  by (simp add: emitted_eq split: option.splits)

lemma length_concat_emitted: "length (concat (map (emitted E ig lx) ds)) \<le> length ds"
proof (induction ds)
  case Nil
  show ?case by simp
next
  case (Cons d ds)
  have "length (emitted E ig lx d) \<le> 1" by (rule length_emitted)
  with Cons.IH show ?case by simp
qed


lemma IsPropIgnored_invoked_iff:
  "(IsPropIgnored \<in> set (invoked E ig lx d)) =
     (\<not> mozInitial_test (decl_value d) \<and> isStandardSyntaxDeclaration E d \<and>
      isStandardSyntaxProperty E (decl_prop d) \<and> isStandardSyntaxValue E (decl_value d) \<and>
      \<not> isCustomProperty E (decl_prop d))"
  by (simp add: invoked_def declCallback_def initial_def called_def emit_def Let_def
      split: option.splits)

lemma Parse_invoked_iff: "(Parse \<in> set (invoked E ig lx d)) = isEligible E ig d"
  by (simp add: invoked_def declCallback_def initial_def called_def emit_def Let_def isEligible_def
      split: option.splits)

lemma MatchProperty_invoked_iff:
  "(MatchProperty \<in> set (invoked E ig lx d)) =
     (isEligible E ig d \<and>
      (\<exists>tree. parse E (decl_value d) = Some tree \<and> \<not> containsUnsupportedMathFunction tree))"
  by (auto simp add: invoked_def declCallback_def initial_def called_def emit_def Let_def isEligible_def
      split: option.splits)

subsection \<open>The collaborating functions\<close>

text \<open>The tree search finds nothing exactly when no node of the tree satisfies the test.\<close>

lemma csstree_find_None:
  "(csstree_find t fn = None) = (\<forall>n \<in> set (nodes t). \<not> fn n)"
  "(csstree_find_list ts fn = None) = (\<forall>n \<in> set (concat (map nodes ts)). \<not> fn n)"
  by (induction t fn and ts fn rule: csstree_find_csstree_find_list.induct)
     (auto split: option.splits)

text \<open>With a non-negative offset and length, \<open>slice\<close> is the substring at that offset.\<close>

lemma slice_nonneg:
  "0 \<le> a \<Longrightarrow> 0 \<le> l \<Longrightarrow> slice s a (a + l) = take (nat l) (drop (nat a) s)"
  unfolding slice_def Let_def
  by (auto simp: min_def max_def)

text \<open>The regular expression accepts exactly the strings equal to the token up to case.\<close>

lemma of_char_lt: "(of_char (c::char) :: nat) < 256"
  by (cases c) simp

lemma asciiLower_Canonicalize: "asciiLower (Canonicalize c) = asciiLower c"
  using of_char_lt [of c]
  by (auto simp: asciiLower_def Canonicalize_def Let_def)

lemma Canonicalize_asciiLower: "Canonicalize (asciiLower c) = Canonicalize c"
  using of_char_lt [of c]
  by (auto simp: asciiLower_def Canonicalize_def Let_def)

lemma Canonicalize_eq_iff: "(Canonicalize a = Canonicalize b) = (asciiLower a = asciiLower b)"
  by (metis asciiLower_Canonicalize Canonicalize_asciiLower)

lemma matchAnchored_iff: "matchAnchored p v = (map asciiLower p = map asciiLower v)"
  by (induction p v rule: matchAnchored.induct) (auto simp: Canonicalize_eq_iff)

lemma mozInitial_test_iff: "mozInitial_test v = equalsIgnoringCase v ''-moz-initial''"
  by (auto simp: mozInitial_test_def equalsIgnoringCase_def matchAnchored_iff)

text \<open>The ignore check, by the position of the first entry whose key matches.\<close>

lemma isPropIgnored_iff:
  "isPropIgnored E ig nm v =
     (\<exists>i<length ig.
        matchesStringOrRegExp E nm (Str (fst (ig ! i))) \<and>
        (\<forall>j<i. \<not> matchesStringOrRegExp E nm (Str (fst (ig ! j)))) \<and>
        truthy (snd (ig ! i)) \<and> matchesStringOrRegExp E v (snd (ig ! i)))"
proof (cases "List.find (\<lambda>(namePattern, _). matchesStringOrRegExp E nm (Str namePattern)) ig")
  case None
  then have "\<forall>i<length ig. \<not> matchesStringOrRegExp E nm (Str (fst (ig ! i)))"
    by (auto simp: find_None_iff case_prod_beta) (metis nth_mem prod.collapse)
  with None show ?thesis
    by (auto simp: isPropIgnored_def Let_def)
next
  case (Some e)
  then obtain i where i: "i < length ig" "e = ig ! i"
    "matchesStringOrRegExp E nm (Str (fst (ig ! i)))"
    "\<forall>j<i. \<not> matchesStringOrRegExp E nm (Str (fst (ig ! j)))"
    by (auto simp: find_Some_iff case_prod_beta)
  have uniq: "k = i" if "k < length ig" "matchesStringOrRegExp E nm (Str (fst (ig ! k)))"
    "\<forall>j<k. \<not> matchesStringOrRegExp E nm (Str (fst (ig ! j)))" for k
    using that i by (meson linorder_neqE_nat)
  from Some i have "isPropIgnored E ig nm v =
      (truthy (snd (ig ! i)) \<and> matchesStringOrRegExp E v (snd (ig ! i)))"
    by (simp add: isPropIgnored_def case_prod_beta Let_def)
  with i uniq show ?thesis by blast
qed

subsection \<open>Localising a mismatch\<close>

text \<open>
  C1.  When a declaration reaches grammar matching, its value parsed to \<open>tree\<close>, and the
  match gives an error named \<^verbatim>\<open>SyntaxMatchError\<close> with raw message \<^verbatim>\<open>Mismatch\<close>, the
  declaration's one diagnostic is a report whose index is the value's index in the
  declaration plus the mismatch offset, whose end index is that plus the mismatch length,
  and whose message is the text \<^verbatim>\<open>Unexpected unknown value "..." for property "..."\<close>
  with, between the first pair of quotes, the slice of the value from the offset to offset
  plus length (for a non-negative offset and length, the substring of that length at that
  offset) and, between the second, the property; \<open>ruleMessages\<close> makes the final message
  from this text and the rule name.
\<close>

theorem mismatch_report_localized:
  assumes "MatchProperty \<in> set (invoked E ig lx d)"
    and "parse E (decl_value d) = Some tree"
    and "lx (decl_prop d) tree = Some err"
    and "name err = ''SyntaxMatchError''"
    and "rawMessage err = ''Mismatch''"
  shows "emitted E ig lx d =
      [Reported
         (ruleMessages E ''declaration-property-value-no-unknown''
            (''Unexpected unknown value \"'' @
             slice (decl_value d) (mismatchOffset err) (mismatchOffset err + mismatchLength err) @
             ''\" for property \"'' @ decl_prop d @ ''\"''))
         d
         (declarationValueIndex E d + mismatchOffset err)
         (declarationValueIndex E d + mismatchOffset err + mismatchLength err)
         ''declaration-property-value-no-unknown'']
    \<and> (0 \<le> mismatchOffset err \<and> 0 \<le> mismatchLength err \<longrightarrow>
         slice (decl_value d) (mismatchOffset err) (mismatchOffset err + mismatchLength err) =
           take (nat (mismatchLength err)) (drop (nat (mismatchOffset err)) (decl_value d)))"
proof -
  from assms(1,2) have "isEligible E ig d" and "\<not> containsUnsupportedMathFunction tree"
    by (auto simp: MatchProperty_invoked_iff)
  with assms(2-5) show ?thesis
    by (simp add: emitted_eq slice_nonneg rejected_def ruleName_def)
qed

theorem mismatch_report_localized_witness:
  "MatchProperty \<in> set (invoked exampleEnv [] exampleLexer (exampleDecl ''color'' ''redd''))
   \<and> emitted exampleEnv [] exampleLexer (exampleDecl ''color'' ''redd'') =
       [Reported ''Unexpected unknown value \"redd\" for property \"color\" (declaration-property-value-no-unknown)''
          (exampleDecl ''color'' ''redd'') 7 11 ''declaration-property-value-no-unknown'']"
proof -
  let ?d = "exampleDecl ''color'' ''redd''"
  let ?t = "CssNode ''Value'' None [CssNode ''Identifier'' (Some ''redd'') []]"
  let ?e = "\<lparr>name = ''SyntaxMatchError'', rawMessage = ''Mismatch'', mismatchOffset = 0, mismatchLength = 4\<rparr>"
  have h1: "MatchProperty \<in> set (invoked exampleEnv [] exampleLexer ?d)" by code_simp
  have h2: "parse exampleEnv (decl_value ?d) = Some ?t" by code_simp
  have h3: "exampleLexer (decl_prop ?d) ?t = Some ?e" by code_simp
  have h4: "name ?e = ''SyntaxMatchError''" by simp
  have h5: "rawMessage ?e = ''Mismatch''" by simp
  note inst = mismatch_report_localized [OF h1 h2 h3 h4 h5, THEN conjunct1]
  have ev: "[Reported
         (ruleMessages exampleEnv ''declaration-property-value-no-unknown''
            (''Unexpected unknown value \"'' @
             slice (decl_value ?d) (mismatchOffset ?e) (mismatchOffset ?e + mismatchLength ?e) @
             ''\" for property \"'' @ decl_prop ?d @ ''\"''))
         ?d
         (declarationValueIndex exampleEnv ?d + mismatchOffset ?e)
         (declarationValueIndex exampleEnv ?d + mismatchOffset ?e + mismatchLength ?e)
         ''declaration-property-value-no-unknown''] =
       [Reported ''Unexpected unknown value \"redd\" for property \"color\" (declaration-property-value-no-unknown)''
          ?d 7 11 ''declaration-property-value-no-unknown'']"
    by code_simp
  show ?thesis
    by (rule conjI [OF h1 trans [OF inst ev]])
qed

subsection \<open>Which match results are reported\<close>

text \<open>
  C2.  For a declaration that reaches grammar matching, a diagnostic is produced if and
  only if the match result is an error whose name is \<^verbatim>\<open>SyntaxMatchError\<close> and whose raw
  message is \<^verbatim>\<open>Mismatch\<close>; no error, or an error of another name or message, produces
  none.
\<close>

theorem diagnostic_iff_syntax_mismatch:
  assumes "MatchProperty \<in> set (invoked E ig lx d)"
  shows "(emitted E ig lx d \<noteq> []) =
      (\<exists>tree err. parse E (decl_value d) = Some tree \<and> lx (decl_prop d) tree = Some err \<and>
         name err = ''SyntaxMatchError'' \<and> rawMessage err = ''Mismatch'')"
proof -
  from assms obtain tree where "isEligible E ig d" "parse E (decl_value d) = Some tree"
    "\<not> containsUnsupportedMathFunction tree"
    by (auto simp: MatchProperty_invoked_iff)
  then show ?thesis
    by (auto simp: emitted_eq split: option.splits)
qed

theorem diagnostic_iff_syntax_mismatch_witness:
  "MatchProperty \<in> set (invoked exampleEnv [] exampleLexer (exampleDecl ''height'' ''redd''))
   \<and> emitted exampleEnv [] exampleLexer (exampleDecl ''height'' ''redd'') = []
   \<and> MatchProperty \<in> set (invoked exampleEnv [] exampleLexer (exampleDecl ''font'' ''italic''))
   \<and> emitted exampleEnv [] exampleLexer (exampleDecl ''font'' ''italic'') \<noteq> []"
proof -
  let ?d = "exampleDecl ''height'' ''redd''"
  let ?f = "exampleDecl ''font'' ''italic''"
  have h: "MatchProperty \<in> set (invoked exampleEnv [] exampleLexer ?d)" by code_simp
  have n: "\<not> (\<exists>tree err. parse exampleEnv (decl_value ?d) = Some tree \<and>
      exampleLexer (decl_prop ?d) tree = Some err \<and>
      name err = ''SyntaxMatchError'' \<and> rawMessage err = ''Mismatch'')"
    by (auto simp: exampleLexer_def exampleDecl_def)
  have a: "emitted exampleEnv [] exampleLexer ?d = []"
    using diagnostic_iff_syntax_mismatch [OF h] n by blast
  have h': "MatchProperty \<in> set (invoked exampleEnv [] exampleLexer ?f)" by code_simp
  have p: "parse exampleEnv (decl_value ?f) = Some (CssNode ''Value'' None [CssNode ''Identifier'' (Some ''italic'') []])"
    by code_simp
  have y: "\<exists>tree err. parse exampleEnv (decl_value ?f) = Some tree \<and>
      exampleLexer (decl_prop ?f) tree = Some err \<and>
      name err = ''SyntaxMatchError'' \<and> rawMessage err = ''Mismatch''"
    unfolding p by (simp add: exampleLexer_def exampleDecl_def)
  have b: "emitted exampleEnv [] exampleLexer ?f \<noteq> []"
    using diagnostic_iff_syntax_mismatch [OF h'] y by blast
  from h a h' b show ?thesis by blast
qed

subsection \<open>Ignore rules\<close>

text \<open>
  C3.  The ignore check answers yes exactly when the ordered list has a first entry whose
  name pattern matches the property, and that entry's value pattern is truthy and matches
  the value.  In particular, when the first entry whose name pattern matches has an absent
  or falsy value pattern the answer is no, whatever the later entries are.  In the
  callback, once the ignore check is reached, the value is parsed exactly when the answer
  is no, and a yes leaves the declaration without a diagnostic.
\<close>

theorem ignore_first_match_wins:
  "(isPropIgnored E ig nm v =
      (\<exists>i<length ig.
         matchesStringOrRegExp E nm (Str (fst (ig ! i))) \<and>
         (\<forall>j<i. \<not> matchesStringOrRegExp E nm (Str (fst (ig ! j)))) \<and>
         truthy (snd (ig ! i)) \<and> matchesStringOrRegExp E v (snd (ig ! i))))
   \<and> (\<forall>i<length ig.
         matchesStringOrRegExp E nm (Str (fst (ig ! i))) \<and>
         (\<forall>j<i. \<not> matchesStringOrRegExp E nm (Str (fst (ig ! j)))) \<and>
         \<not> truthy (snd (ig ! i)) \<longrightarrow> \<not> isPropIgnored E ig nm v)
   \<and> (IsPropIgnored \<in> set (invoked E ig lx d) \<longrightarrow>
         (Parse \<in> set (invoked E ig lx d)) = (\<not> isPropIgnored E ig (decl_prop d) (decl_value d)))
   \<and> (isPropIgnored E ig (decl_prop d) (decl_value d) \<longrightarrow> emitted E ig lx d = [])"
proof (intro conjI)
  show "isPropIgnored E ig nm v =
      (\<exists>i<length ig.
         matchesStringOrRegExp E nm (Str (fst (ig ! i))) \<and>
         (\<forall>j<i. \<not> matchesStringOrRegExp E nm (Str (fst (ig ! j)))) \<and>
         truthy (snd (ig ! i)) \<and> matchesStringOrRegExp E v (snd (ig ! i)))"
    by (rule isPropIgnored_iff)
  show "\<forall>i<length ig.
         matchesStringOrRegExp E nm (Str (fst (ig ! i))) \<and>
         (\<forall>j<i. \<not> matchesStringOrRegExp E nm (Str (fst (ig ! j)))) \<and>
         \<not> truthy (snd (ig ! i)) \<longrightarrow> \<not> isPropIgnored E ig nm v"
  proof (intro allI impI)
    fix i
    assume i: "i < length ig"
      and m: "matchesStringOrRegExp E nm (Str (fst (ig ! i))) \<and>
         (\<forall>j<i. \<not> matchesStringOrRegExp E nm (Str (fst (ig ! j)))) \<and> \<not> truthy (snd (ig ! i))"
    show "\<not> isPropIgnored E ig nm v"
    proof
      assume "isPropIgnored E ig nm v"
      then obtain k where k: "k < length ig" "matchesStringOrRegExp E nm (Str (fst (ig ! k)))"
        "\<forall>j<k. \<not> matchesStringOrRegExp E nm (Str (fst (ig ! j)))" "truthy (snd (ig ! k))"
        unfolding isPropIgnored_iff by blast
      from k(1,2,3) i m have "k = i" by (meson linorder_neqE_nat)
      with k(4) m show False by simp
    qed
  qed
  show "IsPropIgnored \<in> set (invoked E ig lx d) \<longrightarrow>
         (Parse \<in> set (invoked E ig lx d)) = (\<not> isPropIgnored E ig (decl_prop d) (decl_value d))"
    by (auto simp: IsPropIgnored_invoked_iff Parse_invoked_iff isEligible_def)
  show "isPropIgnored E ig (decl_prop d) (decl_value d) \<longrightarrow> emitted E ig lx d = []"
    by (simp add: emitted_eq isEligible_def)
qed

text \<open>
  The first entry matches every property name and has the empty string as value pattern;
  the second names the property and the value.  The declaration is not ignored.
\<close>

theorem ignore_first_match_wins_witness:
  "matchesStringOrRegExp exampleEnv ''color'' (Str ''color'')
   \<and> truthy (Str ''redd'' :: unit pattern)
   \<and> matchesStringOrRegExp exampleEnv ''redd'' (Str ''redd'')
   \<and> \<not> isPropIgnored exampleEnv [(''/./'', Str ''''), (''color'', Str ''redd'')] ''color'' ''redd''
   \<and> Parse \<in> set (invoked exampleEnv [(''/./'', Str ''''), (''color'', Str ''redd'')] exampleLexer
        (exampleDecl ''color'' ''redd''))
   \<and> isPropIgnored exampleEnv [(''color'', Str ''redd'')] ''color'' ''redd''
   \<and> emitted exampleEnv [(''color'', Str ''redd'')] exampleLexer (exampleDecl ''color'' ''redd'') = []"
proof -
  let ?ig = "[(''/./'', Str ''''), (''color'', Str ''redd'')] :: (string \<times> unit pattern) list"
  let ?ig1 = "[(''color'', Str ''redd'')] :: (string \<times> unit pattern) list"
  let ?d = "exampleDecl ''color'' ''redd''"
  note inst = ignore_first_match_wins [of exampleEnv ?ig "''color''" "''redd''" exampleLexer ?d]
  have first: "(0::nat) < length ?ig \<and> matchesStringOrRegExp exampleEnv ''color'' (Str (fst (?ig ! 0))) \<and>
      (\<forall>j<0::nat. \<not> matchesStringOrRegExp exampleEnv ''color'' (Str (fst (?ig ! j)))) \<and>
      \<not> truthy (snd (?ig ! 0))"
    by (simp add: exampleEnv_def)
  from inst [THEN conjunct2, THEN conjunct1] first
  have no: "\<not> isPropIgnored exampleEnv ?ig ''color'' ''redd''"
    by blast
  have reached: "IsPropIgnored \<in> set (invoked exampleEnv ?ig exampleLexer ?d)"
    by code_simp
  have dv: "decl_prop ?d = ''color''" "decl_value ?d = ''redd''"
    by (simp_all add: exampleDecl_def)
  from inst [THEN conjunct2, THEN conjunct2, THEN conjunct1] reached no
  have parsed: "Parse \<in> set (invoked exampleEnv ?ig exampleLexer ?d)"
    by (simp add: dv)
  note inst1 = ignore_first_match_wins [of exampleEnv ?ig1 "''color''" "''redd''" exampleLexer ?d]
  have one: "\<exists>i<length ?ig1.
         matchesStringOrRegExp exampleEnv ''color'' (Str (fst (?ig1 ! i))) \<and>
         (\<forall>j<i. \<not> matchesStringOrRegExp exampleEnv ''color'' (Str (fst (?ig1 ! j)))) \<and>
         truthy (snd (?ig1 ! i)) \<and> matchesStringOrRegExp exampleEnv ''redd'' (snd (?ig1 ! i))"
    by (simp add: exampleEnv_def)
  from inst1 [THEN conjunct1] one
  have yes: "isPropIgnored exampleEnv ?ig1 ''color'' ''redd''"
    by blast
  from inst1 [THEN conjunct2, THEN conjunct2, THEN conjunct2] yes
  have none: "emitted exampleEnv ?ig1 exampleLexer ?d = []"
    by (simp add: dv)
  have m: "matchesStringOrRegExp exampleEnv ''color'' (Str ''color'')"
    "truthy (Str ''redd'' :: unit pattern)"
    "matchesStringOrRegExp exampleEnv ''redd'' (Str ''redd'')"
    by (simp_all add: exampleEnv_def)
  from m no parsed yes none show ?thesis by blast
qed

subsection \<open>Unsupported math functions\<close>

text \<open>
  C4.  When the parsed value tree has, at any depth, a node of type \<^verbatim>\<open>Function\<close> named
  \<^verbatim>\<open>clamp\<close>, \<^verbatim>\<open>min\<close> or \<^verbatim>\<open>max\<close>, the declaration gets no diagnostic and the lexer is not
  called, whatever else the value contains.
\<close>

theorem unsupported_math_suppresses:
  assumes "parse E (decl_value d) = Some tree"
    and "n \<in> set (nodes tree)"
    and "node_type n = ''Function''"
    and "node_name n = Some ''clamp'' \<or> node_name n = Some ''min'' \<or> node_name n = Some ''max''"
  shows "emitted E ig lx d = [] \<and> MatchProperty \<notin> set (invoked E ig lx d)"
proof -
  from assms(3,4) have "unsupportedMathFunction n"
    by (auto simp: unsupportedMathFunction_def)
  with assms(2) have "containsUnsupportedMathFunction tree"
    by (auto simp: containsUnsupportedMathFunction_def csstree_find_None)
  with assms(1) show ?thesis
    by (simp add: emitted_eq MatchProperty_invoked_iff)
qed

text \<open>
  \<^verbatim>\<open>width: calc(1px + max(1px, 2px)) redd\<close>: \<^verbatim>\<open>max\<close> sits inside \<^verbatim>\<open>calc\<close>, and the lexer
  of the example would reject \<^verbatim>\<open>redd\<close>.
\<close>

theorem unsupported_math_suppresses_witness:
  "parse exampleEnv ''calc(1px + max(1px, 2px)) redd'' \<noteq> None
   \<and> exampleLexer ''width'' (the (parse exampleEnv ''calc(1px + max(1px, 2px)) redd'')) \<noteq> None
   \<and> emitted exampleEnv [] exampleLexer (exampleDecl ''width'' ''calc(1px + max(1px, 2px)) redd'') = []
   \<and> MatchProperty \<notin> set (invoked exampleEnv [] exampleLexer
        (exampleDecl ''width'' ''calc(1px + max(1px, 2px)) redd''))"
proof -
  let ?d = "exampleDecl ''width'' ''calc(1px + max(1px, 2px)) redd''"
  let ?n = "CssNode ''Function'' (Some ''max'')
              [CssNode ''Dimension'' None [], CssNode ''Operator'' None [], CssNode ''Dimension'' None []]"
  let ?t = "CssNode ''Value'' None
          [CssNode ''Function'' (Some ''calc'')
             [CssNode ''Dimension'' None [], CssNode ''Operator'' None [], ?n],
           CssNode ''Identifier'' (Some ''redd'') []]"
  have h1: "parse exampleEnv (decl_value ?d) = Some ?t" by code_simp
  have h2: "?n \<in> set (nodes ?t)" by simp
  have h3: "node_type ?n = ''Function''" by simp
  have h4: "node_name ?n = Some ''clamp'' \<or> node_name ?n = Some ''min'' \<or> node_name ?n = Some ''max''"
    by simp
  note inst = unsupported_math_suppresses [OF h1 h2 h3 h4, of "[]" exampleLexer]
  have a: "parse exampleEnv ''calc(1px + max(1px, 2px)) redd'' \<noteq> None" by code_simp
  have b: "exampleLexer ''width'' (the (parse exampleEnv ''calc(1px + max(1px, 2px)) redd'')) \<noteq> None"
    by (simp add: exampleLexer_def)
  from a b inst show ?thesis by blast
qed

subsection \<open>Parse failures\<close>

text \<open>
  C5.  For an eligible declaration whose value the parser rejects, the callback emits
  exactly one diagnostic, the warning of type \<^verbatim>\<open>parseError\<close> on the declaration node, which
  has no index and no end index; the lexer is not called; and the walk goes on with the
  declarations that follow.
\<close>

theorem parse_failure_one_warning:
  assumes "isEligible E ig d"
    and "parse E (decl_value d) = None"
  shows "emitted E ig lx d =
           [Warning (''Cannot parse property value \"'' @ decl_value d @ ''\"'') (Some d) ''parseError'']
    \<and> MatchProperty \<notin> set (invoked E ig lx d)
    \<and> messages (walkDecls (d # ds) (declCallback E ig lx) st) =
        messages st @
          [Warning (''Cannot parse property value \"'' @ decl_value d @ ''\"'') (Some d) ''parseError''] @
          concat (map (emitted E ig lx) ds)"
proof -
  from assms have e: "emitted E ig lx d =
      [Warning (''Cannot parse property value \"'' @ decl_value d @ ''\"'') (Some d) ''parseError'']"
    by (simp add: emitted_eq)
  from assms(2) have m: "MatchProperty \<notin> set (invoked E ig lx d)"
    by (simp add: MatchProperty_invoked_iff)
  have "messages (walkDecls (d # ds) (declCallback E ig lx) st) =
      messages st @ concat (map (emitted E ig lx) (d # ds))"
    by (simp only: walkDecls_frame) simp
  with e m show ?thesis by simp
qed

theorem parse_failure_one_warning_witness:
  "isEligible exampleEnv [] (exampleDecl ''color'' ''('')
   \<and> parse exampleEnv ''('' = None
   \<and> messages (walkDecls [exampleDecl ''color'' ''('', exampleDecl ''color'' ''redd'']
        (declCallback exampleEnv [] exampleLexer) initial) =
       [Warning ''Cannot parse property value \"(\"'' (Some (exampleDecl ''color'' ''('')) ''parseError'',
        Reported ''Unexpected unknown value \"redd\" for property \"color\" (declaration-property-value-no-unknown)''
          (exampleDecl ''color'' ''redd'') 7 11 ''declaration-property-value-no-unknown'']"
proof -
  let ?d = "exampleDecl ''color'' ''(''"
  let ?r = "exampleDecl ''color'' ''redd''"
  have h1: "isEligible exampleEnv [] ?d" by code_simp
  have h2: "parse exampleEnv (decl_value ?d) = None" by code_simp
  note inst = parse_failure_one_warning [OF h1 h2, of exampleLexer "[?r]" initial,
      THEN conjunct2, THEN conjunct2]
  have ev: "messages initial @
          [Warning (''Cannot parse property value \"'' @ decl_value ?d @ ''\"'') (Some ?d) ''parseError''] @
          concat (map (emitted exampleEnv [] exampleLexer) [?r]) =
       [Warning ''Cannot parse property value \"(\"'' (Some ?d) ''parseError'',
        Reported ''Unexpected unknown value \"redd\" for property \"color\" (declaration-property-value-no-unknown)''
          ?r 7 11 ''declaration-property-value-no-unknown'']"
    by code_simp
  have p: "parse exampleEnv ''('' = None" by code_simp
  show ?thesis
    by (intro conjI h1 p trans [OF inst ev])
qed

subsection \<open>At most one diagnostic for a declaration\<close>

text \<open>
  C6.  A declaration adds nothing, or exactly the parse warning, or exactly one report.
  So a walk adds at most as many diagnostics as there are declarations, and so does a run
  of the rule after the option check.
\<close>

theorem at_most_one_diagnostic:
  "(emitted E ig lx d = []
      \<or> emitted E ig lx d =
           [Warning (''Cannot parse property value \"'' @ decl_value d @ ''\"'') (Some d) ''parseError'']
      \<or> (\<exists>m i e. emitted E ig lx d = [Reported m d i e ruleName]))
   \<and> messages (walkDecls root (declCallback E ig lx) st) =
       messages st @ concat (map (emitted E ig lx) root)
   \<and> length (messages (walkDecls root (declCallback E ig lx) st)) \<le> length (messages st) + length root
   \<and> length (messages (rule E primary secondary root st))
       \<le> length (snd (validateOptions E (messages st) ruleName (optionDescriptions primary secondary))) + length root"
proof (intro conjI)
  show "emitted E ig lx d = []
      \<or> emitted E ig lx d =
           [Warning (''Cannot parse property value \"'' @ decl_value d @ ''\"'') (Some d) ''parseError'']
      \<or> (\<exists>m i e. emitted E ig lx d = [Reported m d i e ruleName])"
    by (simp add: emitted_eq split: option.splits)
  show eq: "messages (walkDecls root (declCallback E ig lx) st) =
       messages st @ concat (map (emitted E ig lx) root)"
    by (simp only: walkDecls_frame) simp
  show "length (messages (walkDecls root (declCallback E ig lx) st)) \<le> length (messages st) + length root"
    using length_concat_emitted [of E ig lx root] by (simp add: eq)
  show "length (messages (rule E primary secondary root st))
       \<le> length (snd (validateOptions E (messages st) ruleName (optionDescriptions primary secondary))) + length root"
  proof (cases "validateOptions E (messages st) ruleName (optionDescriptions primary secondary)")
    case (Pair valid msgs)
    show ?thesis
    proof (cases valid)
      case False
      with Pair show ?thesis
        by (simp add: rule_def called_def)
    next
      case True
      from Pair True obtain ig' lx' where
        "rule E primary secondary root st =
           walkDecls root (declCallback E ig' lx')
             (st\<lparr>messages := msgs, calls := calls st @ [ValidateOptions, Fork]\<rparr>)"
        by (simp add: rule_def called_def Let_def)
      with Pair show ?thesis
        using length_concat_emitted [of E ig' lx' root] by (simp add: walkDecls_frame)
    qed
  qed
qed

theorem at_most_one_diagnostic_witness:
  "length (messages (rule exampleEnv (Boolean True) Undefined
      [exampleDecl ''color'' ''redd'', exampleDecl ''color'' ''('', exampleDecl ''color'' ''-moz-initial'']
      initial)) \<le> 3"
proof -
  let ?root = "[exampleDecl ''color'' ''redd'', exampleDecl ''color'' ''('', exampleDecl ''color'' ''-moz-initial'']"
  note inst = at_most_one_diagnostic [of exampleEnv "[]" exampleLexer "exampleDecl ''color'' ''redd''"
      ?root initial "Boolean True" Undefined, THEN conjunct2, THEN conjunct2, THEN conjunct2]
  have ev: "length (snd (validateOptions exampleEnv (messages initial) ruleName
      (optionDescriptions (Boolean True) Undefined))) + length ?root = 3"
    by code_simp
  from inst show ?thesis
    unfolding ev .
qed

subsection \<open>The reported range\<close>

text \<open>
  C7 claims that every diagnostic has an end index strictly greater than its start index.
  The rule adds the lexer's mismatch length to the start index and has no guard on it:
  with a mismatch of length zero the two indices are equal.
\<close>

theorem report_range_counterexample:
  "emitted exampleEnv [] exampleLexer (exampleDecl ''font'' ''italic'') =
     [Reported ''Unexpected unknown value \"\" for property \"font\" (declaration-property-value-no-unknown)''
        (exampleDecl ''font'' ''italic'') 6 6 ''declaration-property-value-no-unknown'']
   \<and> \<not> list_all strictRange (emitted exampleEnv [] exampleLexer (exampleDecl ''font'' ''italic''))"
  by code_simp

text \<open>
  C7, amended.  Every report of the rule comes from a match error of the declaration, its
  index is the value index plus the mismatch offset and its end index is the index plus
  the mismatch length.  So the end index is at least the index when the length is not
  negative, it is strictly greater exactly when the length is positive, and both are
  non-negative when the value index, the offset and the length are.
\<close>

theorem report_range:
  assumes "Reported m n i e r \<in> set (emitted E ig lx d)"
  shows "\<exists>tree err. parse E (decl_value d) = Some tree \<and> lx (decl_prop d) tree = Some err \<and>
      n = d \<and>
      i = declarationValueIndex E d + mismatchOffset err \<and>
      e = i + mismatchLength err \<and>
      (0 \<le> mismatchLength err \<longrightarrow> i \<le> e) \<and>
      ((i < e) = (0 < mismatchLength err)) \<and>
      (0 \<le> declarationValueIndex E d \<and> 0 \<le> mismatchOffset err \<longrightarrow> 0 \<le> i) \<and>
      (0 \<le> declarationValueIndex E d \<and> 0 \<le> mismatchOffset err \<and> 0 \<le> mismatchLength err \<longrightarrow> 0 \<le> e)"
proof (cases "parse E (decl_value d)")
  case None
  with assms show ?thesis
    by (simp add: emitted_eq split: if_splits)
next
  case (Some tree)
  show ?thesis
  proof (cases "lx (decl_prop d) tree")
    case None
    with Some assms show ?thesis
      by (simp add: emitted_eq split: if_splits)
  next
    case (Some err)
    with \<open>parse E (decl_value d) = Some tree\<close> assms
    have "n = d \<and> i = declarationValueIndex E d + mismatchOffset err \<and> e = i + mismatchLength err"
      by (simp add: emitted_eq split: if_splits)
    with Some \<open>parse E (decl_value d) = Some tree\<close> show ?thesis
      by (intro exI [of _ tree] exI [of _ err]) simp
  qed
qed

theorem report_range_witness:
  "Reported ''Unexpected unknown value \"redd\" for property \"color\" (declaration-property-value-no-unknown)''
       (exampleDecl ''color'' ''redd'') 7 11 ''declaration-property-value-no-unknown''
     \<in> set (emitted exampleEnv [] exampleLexer (exampleDecl ''color'' ''redd''))
   \<and> (\<exists>err. exampleLexer ''color'' (CssNode ''Value'' None [CssNode ''Identifier'' (Some ''redd'') []]) = Some err
        \<and> 7 = declarationValueIndex exampleEnv (exampleDecl ''color'' ''redd'') + mismatchOffset err
        \<and> 11 = 7 + mismatchLength err \<and> 0 < mismatchLength err)"
proof -
  let ?d = "exampleDecl ''color'' ''redd''"
  let ?t = "CssNode ''Value'' None [CssNode ''Identifier'' (Some ''redd'') []]"
  have h: "Reported ''Unexpected unknown value \"redd\" for property \"color\" (declaration-property-value-no-unknown)''
       ?d 7 11 ''declaration-property-value-no-unknown''
     \<in> set (emitted exampleEnv [] exampleLexer ?d)"
    by code_simp
  have p: "parse exampleEnv (decl_value ?d) = Some ?t" by code_simp
  have dp: "decl_prop ?d = ''color''" by (simp add: exampleDecl_def)
  from report_range [OF h] obtain tree err where
    r: "parse exampleEnv (decl_value ?d) = Some tree" "exampleLexer (decl_prop ?d) tree = Some err"
       "7 = declarationValueIndex exampleEnv ?d + mismatchOffset err"
       "(11::int) = 7 + mismatchLength err" "((7::int) < 11) = (0 < mismatchLength err)"
    by blast
  from r(1) p have "tree = ?t" by simp
  with r dp have "exampleLexer ''color'' ?t = Some err
        \<and> 7 = declarationValueIndex exampleEnv ?d + mismatchOffset err
        \<and> 11 = 7 + mismatchLength err \<and> 0 < mismatchLength err"
    by simp
  with h show ?thesis by blast
qed

subsection \<open>Invalid options\<close>

text \<open>
  What the option check complains about, and what it lets through: the value
  \<^verbatim>\<open>false\<close> for the primary option; secondary options that are not an object; an option
  of unknown name; a \<^verbatim>\<open>propertiesSyntax\<close> or \<^verbatim>\<open>typesSyntax\<close> that is neither a plain object
  nor an array.  A plain object is accepted for these two whatever its entries are.
\<close>

lemma optionComplaints_primary_false: "optionComplaints (Boolean False) secondary \<noteq> []"
  by (simp add: optionComplaints_def optionDescriptions_def validate_def ruleName_def)

lemma optionComplaints_not_object:
  assumes "secondary = Str x \<or> secondary = Number n \<or> secondary = Boolean b \<or> secondary = RegExp r"
  shows "optionComplaints primary secondary \<noteq> []"
  using assms
  by (auto simp: optionComplaints_def optionDescriptions_def validate_def ruleName_def)

lemma optionComplaints_unknown_name:
  assumes "(k, v) \<in> set es"
    and "k \<notin> set ignoredOptions"
    and "k \<noteq> ''ignoreProperties''" and "k \<noteq> ''propertiesSyntax''" and "k \<noteq> ''typesSyntax''"
  shows "optionComplaints primary (Obj es) \<noteq> []"
proof -
  from assms(3-5) have "map_of (possibleOptions :: (string \<times> ('a jsvalue \<Rightarrow> bool) list) list) k = None"
    by (simp add: possibleOptions_def)
  with assms(1,2) show ?thesis
    by (auto simp: optionComplaints_def optionDescriptions_def validate_def ruleName_def
        intro!: bexI [of _ "(k, v)"])
qed

lemma optionComplaints_syntax_not_object:
  assumes "(k, v) \<in> set es"
    and "k = ''propertiesSyntax'' \<or> k = ''typesSyntax''"
    and "\<not> isPlainObject v" and "\<forall>xs. v \<noteq> Arr xs"
  shows "optionComplaints primary (Obj es) \<noteq> []"
proof -
  from assms(2) have "map_of (possibleOptions :: (string \<times> ('a jsvalue \<Rightarrow> bool) list) list) k = Some [isPlainObject]"
    by (auto simp: possibleOptions_def)
  moreover from assms(4) have "flat [v] = [v]"
    by (cases v) (simp_all add: flat_def)
  moreover from assms(2) have "k \<notin> set ignoredOptions"
    by (auto simp: ignoredOptions_def)
  ultimately show ?thesis
    using assms(1,3)
    by (auto simp: optionComplaints_def optionDescriptions_def validate_def ruleName_def
        intro!: bexI [of _ "(k, v)"])
qed

lemma optionComplaints_syntax_object:
  assumes "k = ''propertiesSyntax'' \<or> k = ''typesSyntax''"
  shows "optionComplaints (Boolean True) (Obj [(k, Obj entries)]) = []"
  using assms
  by (auto simp: optionComplaints_def optionDescriptions_def validate_def ruleName_def
      possibleOptions_def ignoredOptions_def flat_def isPlainObject_def)





subsection \<open>The vendor keyword\<close>

text \<open>
  C9.  When the value is \<^verbatim>\<open>-moz-initial\<close> in any letter case, the callback returns the
  state it was given: no diagnostic, and no call to any collaborator, so the check comes
  before the standard-syntax checks, the custom-property check, the ignore rules, the
  parser and the lexer.
\<close>

theorem moz_initial_bypass:
  assumes "equalsIgnoringCase (decl_value d) ''-moz-initial''"
  shows "declCallback E ig lx d st = st \<and> emitted E ig lx d = [] \<and> invoked E ig lx d = []"
proof -
  from assms have t: "mozInitial_test (decl_value d)"
    by (simp add: mozInitial_test_iff)
  then show ?thesis
    by (simp add: declCallback_def emitted_def invoked_def initial_def)
qed

theorem moz_initial_bypass_witness:
  "equalsIgnoringCase ''-MOZ-Initial'' ''-moz-initial''
   \<and> declCallback exampleEnv [] exampleLexer (exampleDecl ''display'' ''-MOZ-Initial'') initial = initial"
proof -
  let ?d = "exampleDecl ''display'' ''-MOZ-Initial''"
  have h: "equalsIgnoringCase (decl_value ?d) ''-moz-initial''" by code_simp
  have h': "equalsIgnoringCase ''-MOZ-Initial'' ''-moz-initial''" by code_simp
  from moz_initial_bypass [OF h, of exampleEnv "[]" exampleLexer initial] h'
  show ?thesis by blast
qed



end
